theory Spec2Isabelle
  imports Main
begin

section \<open>The notification dispatcher of src/utils/NotificationService.ts\<close>

text \<open>
  The module talks to collaborators it does not own: the platform identity
  (\<^verbatim>\<open>Platform.OS\<close>), the lazily required \<^verbatim>\<open>expo-notifications\<close> module, the
  browser's \<^verbatim>\<open>Notification\<close> object, the timer \<^verbatim>\<open>setTimeout\<close> and the console. The
  embedding makes every call into one of them an event appended to a log, and lets the host
  decide how a call that can fail completes: each host operation is a function of the log
  as it stands once the call has been appended (so its answer may depend on the arguments
  and on everything that happened before). A call that throws, and an awaited promise that
  rejects, is \<open>Inl error\<close>; a call that returns, and a promise that resolves, is
  \<open>Inr value\<close>.

  An \<^verbatim>\<open>await\<close> is modelled by the settlement of its promise; the calls of a process are
  run one after the other. \<^verbatim>\<open>initializeNotificationHandler\<close> contains no \<^verbatim>\<open>await\<close>, so
  on the single-threaded event loop it runs without interruption also when calls overlap.

  The \<^verbatim>\<open>seconds\<close> argument is a JavaScript number, a double; it is modelled as an integer.
  On the native path the value is passed on unchanged. On the web path the code hands
  \<^verbatim>\<open>setTimeout\<close> the double product \<^verbatim>\<open>seconds * 1000\<close>, which is the exact product written
  here only while it stays below \<open>2^53\<close>; a delay that is not a whole number of seconds,
  and the rounding of larger products, are outside the embedding. There is no clock either:
  when the host runs a timer callback is not modelled, and \<open>TimerFires\<close> below may run any
  callback at any point. The claims settled below are not about the value of the delay or
  the moment a timer fires; where a statement shows the event handed to \<^verbatim>\<open>setTimeout\<close>,
  its delay is this exact product of an integer.
\<close>

subsection \<open>Values exchanged with the host\<close>

datatype js_error = TypeError | Thrown string

text \<open>The object returned by the \<^verbatim>\<open>handleNotification\<close> function of lines 31-36.\<close>

record notification_behavior =
  shouldPlaySound :: bool
  shouldSetBadge :: bool
  shouldShowBanner :: bool
  shouldShowList :: bool

record notification_content =
  content_title :: string
  content_body :: string

text \<open>The \<^verbatim>\<open>trigger\<close> object of lines 139-143.\<close>

record time_interval_trigger =
  trigger_type :: string
  trigger_seconds :: int
  trigger_repeats :: bool

text \<open>
  The argument of \<^verbatim>\<open>scheduleNotificationAsync\<close>; \<^verbatim>\<open>trigger: null\<close> is \<open>None\<close>.
\<close>

record notification_request =
  request_content :: notification_content
  request_trigger :: "time_interval_trigger option"

text \<open>
  The \<^verbatim>\<open>NotificationOptions\<close> of lines 60-64; an option the source leaves out is \<open>None\<close>.
\<close>

record notification_options =
  options_body :: string
  options_icon :: "string option"

text \<open>
  The only function the module hands to \<^verbatim>\<open>setTimeout\<close> is the closure of lines 115-117,
  which captures \<^verbatim>\<open>title\<close> and \<^verbatim>\<open>body\<close>.
\<close>

datatype callback = SendWebNotificationCallback string string

datatype event =
    Require string
  | SetNotificationHandler notification_behavior
  | RequestPermissionsAsync
  | ScheduleNotificationAsync notification_request
  | RequestPermission
  | NewNotification string notification_options
  | SetTimeout callback int
  | ConsoleWarn string "js_error option"

subsection \<open>The host\<close>

record trigger_input_types =
  TIME_INTERVAL :: string

text \<open>
  What \<^verbatim>\<open>require('expo-notifications')\<close> returns. A method that is missing throws a
  \<^verbatim>\<open>TypeError\<close> when called, which is one of the \<open>Inl\<close> answers. \<^verbatim>\<open>requestPermissionsAsync\<close>
  resolves to \<open>Some status\<close> for an object with that \<^verbatim>\<open>status\<close>, and to \<open>None\<close> for
  \<^verbatim>\<open>null\<close> or \<^verbatim>\<open>undefined\<close>. \<^verbatim>\<open>SchedulableTriggerInputTypes\<close> is \<open>None\<close> when the module
  has no such property.
\<close>

record notifications_module =
  setNotificationHandler :: "event list \<Rightarrow> js_error + unit"
  requestPermissionsAsync :: "event list \<Rightarrow> js_error + string option"
  scheduleNotificationAsync :: "event list \<Rightarrow> js_error + unit"
  SchedulableTriggerInputTypes :: "trigger_input_types option"

text \<open>
  \<^verbatim>\<open>require\<close> answers \<open>Inr None\<close> when it returns a falsy value.
  \<^verbatim>\<open>Notification_permission\<close> is the property \<^verbatim>\<open>Notification.permission\<close>, read without
  an event of its own.
\<close>

record host =
  Platform_OS :: string
  require :: "string \<Rightarrow> event list \<Rightarrow> js_error + notifications_module option"
  window_defined :: bool
  Notification_in_window :: bool
  Notification_permission :: "event list \<Rightarrow> string"
  Notification_requestPermission :: "event list \<Rightarrow> js_error + unit"
  Notification_new :: "event list \<Rightarrow> js_error + unit"

subsection \<open>The module state\<close>

text \<open>
  Line 5 declares the only module-level variable. \<open>events\<close> is the log of the calls made
  so far.
\<close>

record state =
  notificationHandlerInitialized :: bool
  events :: "event list"

definition initial_state :: state where
  "initial_state = \<lparr>notificationHandlerInitialized = False, events = []\<rparr>"

definition log_event :: "event \<Rightarrow> state \<Rightarrow> state" where
  "log_event e s = s\<lparr>events := events s @ [e]\<rparr>"

definition console_warn :: "string \<Rightarrow> js_error option \<Rightarrow> state \<Rightarrow> state" where
  "console_warn message error s = log_event (ConsoleWarn message error) s"

subsection \<open>The functions of the module\<close>

text \<open>Lines 8-20. The \<^verbatim>\<open>catch\<close> of line 16 turns a failing \<^verbatim>\<open>require\<close> into \<^verbatim>\<open>null\<close>.\<close>

definition getNotifications :: "host \<Rightarrow> state \<Rightarrow> notifications_module option \<times> state" where
  "getNotifications h s =
     (if Platform_OS h = ''web'' then (None, s)
      else
        let s1 = log_event (Require ''expo-notifications'') s in
        (case require h ''expo-notifications'' (events s1) of
           Inl error \<Rightarrow> (None, s1)
         | Inr module \<Rightarrow> (module, s1)))"

definition foregroundBehavior :: notification_behavior where
  "foregroundBehavior =
     \<lparr>shouldPlaySound = True, shouldSetBadge = False,
      shouldShowBanner = True, shouldShowList = True\<rparr>"

text \<open>
  Lines 24-43. The guard of line 25 returns when the flag is set, when \<^verbatim>\<open>Notifications\<close> is
  falsy or on the web. The \<^verbatim>\<open>catch\<close> of line 39 is empty: a failure is not reported, and the
  assignment of line 38 is skipped.
\<close>

definition initializeNotificationHandler ::
  "host \<Rightarrow> notifications_module option \<Rightarrow> state \<Rightarrow> state" where
  "initializeNotificationHandler h Notifications s =
     (case Notifications of
        None \<Rightarrow> s
      | Some N \<Rightarrow>
          if notificationHandlerInitialized s \<or> Platform_OS h = ''web'' then s
          else
            let s1 = log_event (SetNotificationHandler foregroundBehavior) s in
            (case setNotificationHandler N (events s1) of
               Inl error \<Rightarrow> s1
             | Inr u \<Rightarrow> s1\<lparr>notificationHandlerInitialized := True\<rparr>))"

text \<open>Lines 52-69, the body of the \<^verbatim>\<open>try\<close> of \<^verbatim>\<open>sendWebNotification\<close>.\<close>

definition sendWebNotification_try ::
  "host \<Rightarrow> string \<Rightarrow> string \<Rightarrow> state \<Rightarrow> (js_error + unit) \<times> state" where
  "sendWebNotification_try h title body s =
     (case (if Notification_permission h (events s) = ''default''
            then (let s1 = log_event RequestPermission s
                  in (Notification_requestPermission h (events s1), s1))
            else (Inr (), s)) of
        (Inl error, s1) \<Rightarrow> (Inl error, s1)
      | (Inr u, s1) \<Rightarrow>
          if Notification_permission h (events s1) = ''granted''
          then
            let notificationOptions = \<lparr>options_body = body, options_icon = None\<rparr>;
                s2 = log_event (NewNotification title notificationOptions) s1
            in (case Notification_new h (events s2) of
                  Inl error \<Rightarrow> (Inl error, s2)
                | Inr u \<Rightarrow> (Inr (), s2))
          else (Inr (), console_warn ''Notification permission denied'' None s1))"

text \<open>Lines 46-73.\<close>

definition sendWebNotification ::
  "host \<Rightarrow> string \<Rightarrow> string \<Rightarrow> state \<Rightarrow> (js_error + unit) \<times> state" where
  "sendWebNotification h title body s =
     (if \<not> window_defined h \<or> \<not> Notification_in_window h
      then (Inr (), console_warn ''Browser notifications not supported'' None s)
      else
        (case sendWebNotification_try h title body s of
           (Inl error, s1) \<Rightarrow>
             (Inr (), console_warn ''Failed to send web notification:'' (Some error) s1)
         | (Inr u, s1) \<Rightarrow> (Inr (), s1)))"

text \<open>The message of the warning of line 106.\<close>

definition send_failure_warning :: string where
  "send_failure_warning =
     ''Failed to send local notification. Note: Notifications may not work in Expo Go. Use a development build for full functionality.''"

text \<open>The message of the warning of line 150.\<close>

definition schedule_failure_warning :: string where
  "schedule_failure_warning =
     ''Failed to schedule notification. Note: Notifications may not work in Expo Go. Use a development build for full functionality.''"

text \<open>Lines 90-104, the body of the \<^verbatim>\<open>try\<close> of \<^verbatim>\<open>sendLocalNotification\<close>.\<close>

definition sendLocalNotification_try ::
  "host \<Rightarrow> notifications_module \<Rightarrow> string \<Rightarrow> string \<Rightarrow> state \<Rightarrow> (js_error + unit) \<times> state" where
  "sendLocalNotification_try h Notifications title body s =
     (let s1 = initializeNotificationHandler h (Some Notifications) s;
          s2 = log_event RequestPermissionsAsync s1
      in (case requestPermissionsAsync Notifications (events s2) of
            Inl error \<Rightarrow> (Inl error, s2)
          | Inr None \<Rightarrow> (Inl TypeError, s2)
          | Inr (Some status) \<Rightarrow>
              if status \<noteq> ''granted''
              then (Inr (), console_warn ''Notification permissions not granted'' None s2)
              else
                let s3 = log_event
                           (ScheduleNotificationAsync
                              \<lparr>request_content = \<lparr>content_title = title, content_body = body\<rparr>,
                               request_trigger = None\<rparr>) s2
                in (case scheduleNotificationAsync Notifications (events s3) of
                      Inl error \<Rightarrow> (Inl error, s3)
                    | Inr u \<Rightarrow> (Inr (), s3))))"

text \<open>Lines 76-109.\<close>

definition sendLocalNotification ::
  "host \<Rightarrow> string \<Rightarrow> string \<Rightarrow> state \<Rightarrow> (js_error + unit) \<times> state" where
  "sendLocalNotification h title body s =
     (if Platform_OS h = ''web'' then sendWebNotification h title body s
      else
        (case getNotifications h s of
           (None, s1) \<Rightarrow>
             (Inr (), console_warn ''Notifications not available on this platform'' None s1)
         | (Some Notifications, s1) \<Rightarrow>
             (case sendLocalNotification_try h Notifications title body s1 of
                (Inl error, s2) \<Rightarrow>
                  (Inr (), console_warn send_failure_warning None s2)
              | (Inr u, s2) \<Rightarrow> (Inr (), s2))))"

text \<open>Lines 128-148, the body of the \<^verbatim>\<open>try\<close> of \<^verbatim>\<open>scheduleNotification\<close>.\<close>

definition scheduleNotification_try ::
  "host \<Rightarrow> notifications_module \<Rightarrow> string \<Rightarrow> string \<Rightarrow> int \<Rightarrow> state
     \<Rightarrow> (js_error + unit) \<times> state" where
  "scheduleNotification_try h Notifications title body seconds s =
     (let s1 = initializeNotificationHandler h (Some Notifications) s;
          s2 = log_event RequestPermissionsAsync s1
      in (case requestPermissionsAsync Notifications (events s2) of
            Inl error \<Rightarrow> (Inl error, s2)
          | Inr None \<Rightarrow> (Inl TypeError, s2)
          | Inr (Some status) \<Rightarrow>
              if status \<noteq> ''granted''
              then (Inr (), console_warn ''Notification permissions not granted'' None s2)
              else
                (case SchedulableTriggerInputTypes Notifications of
                   None \<Rightarrow> (Inl TypeError, s2)
                 | Some types \<Rightarrow>
                     let trigger = \<lparr>trigger_type = TIME_INTERVAL types,
                                    trigger_seconds = seconds,
                                    trigger_repeats = False\<rparr>;
                         s3 = log_event
                                (ScheduleNotificationAsync
                                   \<lparr>request_content =
                                      \<lparr>content_title = title, content_body = body\<rparr>,
                                    request_trigger = Some trigger\<rparr>) s2
                     in (case scheduleNotificationAsync Notifications (events s3) of
                           Inl error \<Rightarrow> (Inl error, s3)
                         | Inr u \<Rightarrow> (Inr (), s3)))))"

text \<open>
  Lines 112-153. On the web the function only arms the timer: the value \<^verbatim>\<open>setTimeout\<close>
  returns is dropped and the function returns \<^verbatim>\<open>undefined\<close>.
\<close>

definition scheduleNotification ::
  "host \<Rightarrow> string \<Rightarrow> string \<Rightarrow> int \<Rightarrow> state \<Rightarrow> (js_error + unit) \<times> state" where
  "scheduleNotification h title body seconds s =
     (if Platform_OS h = ''web''
      then (Inr (), log_event (SetTimeout (SendWebNotificationCallback title body) (seconds * 1000)) s)
      else
        (case getNotifications h s of
           (None, s1) \<Rightarrow>
             (Inr (), console_warn ''Notifications not available on this platform'' None s1)
         | (Some Notifications, s1) \<Rightarrow>
             (case scheduleNotification_try h Notifications title body seconds s1 of
                (Inl error, s2) \<Rightarrow>
                  (Inr (), console_warn schedule_failure_warning None s2)
              | (Inr u, s2) \<Rightarrow> (Inr (), s2))))"

text \<open>
  What the host runs when a timer fires: the closure of lines 115-117 calls
  \<^verbatim>\<open>sendWebNotification\<close> with the captured title and body.
\<close>

fun run_callback :: "host \<Rightarrow> callback \<Rightarrow> state \<Rightarrow> (js_error + unit) \<times> state" where
  "run_callback h (SendWebNotificationCallback title body) s = sendWebNotification h title body s"

subsection \<open>A process: calls and timer firings in order\<close>

text \<open>
  One thing that happens in the process: a caller's awaited call of one of the two exported
  functions, or the host firing a timer callback.
\<close>

datatype activity =
    SendLocalNotification string string
  | ScheduleNotification string string int
  | TimerFires callback

fun perform :: "host \<Rightarrow> activity \<Rightarrow> state \<Rightarrow> (js_error + unit) \<times> state" where
  "perform h (SendLocalNotification title body) s = sendLocalNotification h title body s"
| "perform h (ScheduleNotification title body seconds) s = scheduleNotification h title body seconds s"
| "perform h (TimerFires cb) s = run_callback h cb s"

text \<open>The activities in order; an exception that escaped one of them would end the run.\<close>

fun run :: "host \<Rightarrow> activity list \<Rightarrow> state \<Rightarrow> (js_error + unit) \<times> state" where
  "run h [] s = (Inr (), s)"
| "run h (a # as) s =
     (case perform h a s of
        (Inl error, s1) \<Rightarrow> (Inl error, s1)
      | (Inr u, s1) \<Rightarrow> run h as s1)"

fun is_call :: "activity \<Rightarrow> bool" where
  "is_call (TimerFires cb) = False"
| "is_call a = True"

subsection \<open>Reading the log\<close>

text \<open>The events appended between an earlier state and a later one.\<close>

definition emitted :: "state \<Rightarrow> state \<Rightarrow> event list" where
  "emitted s s' = drop (length (events s)) (events s')"

fun is_require :: "event \<Rightarrow> bool" where
  "is_require (Require name) = True"
| "is_require e = False"

fun is_registration :: "event \<Rightarrow> bool" where
  "is_registration (SetNotificationHandler config) = True"
| "is_registration e = False"

fun is_schedule_call :: "event \<Rightarrow> bool" where
  "is_schedule_call (ScheduleNotificationAsync request) = True"
| "is_schedule_call e = False"

fun is_display :: "event \<Rightarrow> bool" where
  "is_display (NewNotification title options) = True"
| "is_display e = False"

fun is_permission_request :: "event \<Rightarrow> bool" where
  "is_permission_request RequestPermission = True"
| "is_permission_request e = False"

fun is_warning :: "event \<Rightarrow> bool" where
  "is_warning (ConsoleWarn message error) = True"
| "is_warning e = False"

text \<open>
  A call into a notification API: a method of the native module, or the browser's
  permission request or constructor.
\<close>

fun is_api_call :: "event \<Rightarrow> bool" where
  "is_api_call (SetNotificationHandler config) = True"
| "is_api_call RequestPermissionsAsync = True"
| "is_api_call (ScheduleNotificationAsync request) = True"
| "is_api_call RequestPermission = True"
| "is_api_call (NewNotification title options) = True"
| "is_api_call e = False"

definition count_events :: "(event \<Rightarrow> bool) \<Rightarrow> state \<Rightarrow> nat" where
  "count_events P s = length (filter P (events s))"

text \<open>
  The state in which a native call awaits the answer to its permission request: the module
  \<open>N\<close> has been required, the handler registration has run and
  \<^verbatim>\<open>requestPermissionsAsync\<close> has been called.
\<close>

definition awaiting_permissions :: "host \<Rightarrow> notifications_module \<Rightarrow> state \<Rightarrow> state" where
  "awaiting_permissions h N s =
     log_event RequestPermissionsAsync
       (initializeNotificationHandler h (Some N) (log_event (Require ''expo-notifications'') s))"

text \<open>
  Whether the host answers the call \<open>e\<close>, made when the log was \<open>log\<close>, with a failure.
  \<open>N\<close> is the module whose methods the call uses.
\<close>

fun failed :: "host \<Rightarrow> notifications_module option \<Rightarrow> event list \<Rightarrow> event \<Rightarrow> bool" where
  "failed h N log (Require name) = isl (require h name (log @ [Require name]))"
| "failed h N log (SetNotificationHandler config) =
     (case N of None \<Rightarrow> False
      | Some m \<Rightarrow> isl (setNotificationHandler m (log @ [SetNotificationHandler config])))"
| "failed h N log RequestPermissionsAsync =
     (case N of None \<Rightarrow> False
      | Some m \<Rightarrow> isl (requestPermissionsAsync m (log @ [RequestPermissionsAsync])))"
| "failed h N log (ScheduleNotificationAsync request) =
     (case N of None \<Rightarrow> False
      | Some m \<Rightarrow> isl (scheduleNotificationAsync m (log @ [ScheduleNotificationAsync request])))"
| "failed h N log RequestPermission =
     isl (Notification_requestPermission h (log @ [RequestPermission]))"
| "failed h N log (NewNotification title options) =
     isl (Notification_new h (log @ [NewNotification title options]))"
| "failed h N log (SetTimeout cb delay) = False"
| "failed h N log (ConsoleWarn message error) = False"

text \<open>
  The events \<open>evs\<close> follow the log \<open>log\<close>. Every failed call among them other than the
  handler registration is followed by one warning and nothing more; a failed handler
  registration is followed by the permission request, with no warning in between.
\<close>

fun failures_handled ::
  "host \<Rightarrow> notifications_module option \<Rightarrow> event list \<Rightarrow> event list \<Rightarrow> bool" where
  "failures_handled h N log [] = True"
| "failures_handled h N log (e # rest) =
     ((failed h N log e \<longrightarrow>
         (if is_registration e then take 1 rest = [RequestPermissionsAsync]
          else length rest = 1 \<and> list_all is_warning rest))
      \<and> failures_handled h N (log @ [e]) rest)"

subsection \<open>Some hosts\<close>

text \<open>A native module on which every call succeeds and permission is granted.\<close>

definition working_module :: notifications_module where
  "working_module =
     \<lparr>setNotificationHandler = (\<lambda>log. Inr ()),
      requestPermissionsAsync = (\<lambda>log. Inr (Some ''granted'')),
      scheduleNotificationAsync = (\<lambda>log. Inr ()),
      SchedulableTriggerInputTypes = Some \<lparr>TIME_INTERVAL = ''timeInterval''\<rparr>\<rparr>"

text \<open>
  A module on which \<^verbatim>\<open>setNotificationHandler\<close> throws whenever it is called, the
  situation the comments of lines 29 and 40-41 describe for Expo Go.
\<close>

definition expo_go_module :: notifications_module where
  "expo_go_module =
     working_module\<lparr>setNotificationHandler := (\<lambda>log. Inl (Thrown ''not available in Expo Go''))\<rparr>"

text \<open>A module on which \<^verbatim>\<open>setNotificationHandler\<close> throws the first time only.\<close>

definition flaky_module :: notifications_module where
  "flaky_module =
     working_module\<lparr>setNotificationHandler :=
       (\<lambda>log. if length (filter is_registration log) \<le> 1
               then Inl (Thrown ''not ready'') else Inr ())\<rparr>"

text \<open>A module on which the user refuses the permission.\<close>

definition refusing_module :: notifications_module where
  "refusing_module =
     working_module\<lparr>requestPermissionsAsync := (\<lambda>log. Inr (Some ''denied''))\<rparr>"

text \<open>A module whose \<^verbatim>\<open>requestPermissionsAsync\<close> rejects.\<close>

definition rejecting_module :: notifications_module where
  "rejecting_module =
     working_module\<lparr>requestPermissionsAsync := (\<lambda>log. Inl (Thrown ''rejected''))\<rparr>"

text \<open>An Android host that provides the module \<open>N\<close>; it has no browser notifications.\<close>

definition android_host :: "notifications_module \<Rightarrow> host" where
  "android_host N =
     \<lparr>Platform_OS = ''android'',
      require = (\<lambda>name log. if name = ''expo-notifications'' then Inr (Some N)
                            else Inl (Thrown ''Cannot find module'')),
      window_defined = True,
      Notification_in_window = False,
      Notification_permission = (\<lambda>log. ''default''),
      Notification_requestPermission = (\<lambda>log. Inl TypeError),
      Notification_new = (\<lambda>log. Inl TypeError)\<rparr>"

text \<open>An iOS host on which the module is not bundled: \<^verbatim>\<open>require\<close> throws.\<close>

definition bare_ios_host :: host where
  "bare_ios_host =
     (android_host working_module)
       \<lparr>Platform_OS := ''ios'', require := (\<lambda>name log. Inl (Thrown ''Cannot find module''))\<rparr>"

text \<open>A browser in which the permission has the fixed value \<open>permission\<close>.\<close>

definition browser_host :: "string \<Rightarrow> host" where
  "browser_host permission =
     \<lparr>Platform_OS = ''web'',
      require = (\<lambda>name log. Inl (Thrown ''Cannot find module'')),
      window_defined = True,
      Notification_in_window = True,
      Notification_permission = (\<lambda>log. permission),
      Notification_requestPermission = (\<lambda>log. Inr ()),
      Notification_new = (\<lambda>log. Inr ())\<rparr>"

text \<open>A browser in which the user grants the permission when asked.\<close>

definition asking_browser_host :: host where
  "asking_browser_host =
     (browser_host ''default'')
       \<lparr>Notification_permission :=
          (\<lambda>log. if list_ex is_permission_request log then ''granted'' else ''default'')\<rparr>"

text \<open>A web runtime without the browser's \<^verbatim>\<open>Notification\<close> object.\<close>

definition headless_web_host :: host where
  "headless_web_host = (browser_host ''default'')\<lparr>Notification_in_window := False\<rparr>"

section \<open>Properties\<close>

subsection \<open>The log only grows\<close>

lemma emitted_append [simp]: "events s' = events s @ evs \<Longrightarrow> emitted s s' = evs"
  by (simp add: emitted_def)

lemma events_log_event [simp]: "events (log_event e s) = events s @ [e]"
  by (simp add: log_event_def)

lemma flag_log_event [simp]:
  "notificationHandlerInitialized (log_event e s) = notificationHandlerInitialized s"
  by (simp add: log_event_def)

lemma events_console_warn [simp]:
  "events (console_warn message error s) = events s @ [ConsoleWarn message error]"
  by (simp add: console_warn_def)

lemma flag_console_warn [simp]:
  "notificationHandlerInitialized (console_warn message error s) = notificationHandlerInitialized s"
  by (simp add: console_warn_def)

lemma events_initializeNotificationHandler:
  "events (initializeNotificationHandler h (Some N) s) =
     events s @ (if notificationHandlerInitialized s \<or> Platform_OS h = ''web'' then []
                 else [SetNotificationHandler foregroundBehavior])"
  by (simp add: initializeNotificationHandler_def Let_def split: sum.split)

lemma flag_initializeNotificationHandler:
  "notificationHandlerInitialized (initializeNotificationHandler h (Some N) s) =
     (notificationHandlerInitialized s \<or>
      Platform_OS h \<noteq> ''web'' \<and>
      setNotificationHandler N (events s @ [SetNotificationHandler foregroundBehavior]) = Inr ())"
  by (simp add: initializeNotificationHandler_def Let_def split: sum.split)

lemma events_awaiting_permissions:
  "events (awaiting_permissions h N s) =
     events s @ Require ''expo-notifications'' #
       (if notificationHandlerInitialized s \<or> Platform_OS h = ''web'' then []
        else [SetNotificationHandler foregroundBehavior]) @ [RequestPermissionsAsync]"
  by (simp add: awaiting_permissions_def events_initializeNotificationHandler)

lemma flag_awaiting_permissions:
  "notificationHandlerInitialized (awaiting_permissions h N s) =
     (notificationHandlerInitialized s \<or>
      Platform_OS h \<noteq> ''web'' \<and>
      setNotificationHandler N
        (events s @ [Require ''expo-notifications'', SetNotificationHandler foregroundBehavior])
        = Inr ())"
  by (simp add: awaiting_permissions_def flag_initializeNotificationHandler)

subsection \<open>The native path, once the module is resolved\<close>

lemma getNotifications_native:
  "Platform_OS h \<noteq> ''web'' \<Longrightarrow>
   getNotifications h s =
     (case require h ''expo-notifications'' (events s @ [Require ''expo-notifications'']) of
        Inl error \<Rightarrow> None | Inr module \<Rightarrow> module,
      log_event (Require ''expo-notifications'') s)"
  by (simp add: getNotifications_def Let_def split: sum.split)

lemma sendLocalNotification_resolved:
  assumes "Platform_OS h \<noteq> ''web''"
    and "require h ''expo-notifications'' (events s @ [Require ''expo-notifications''])
           = Inr (Some N)"
  shows "sendLocalNotification h title body s =
    (Inr (),
     let s2 = awaiting_permissions h N s;
         failure = send_failure_warning
     in case requestPermissionsAsync N (events s2) of
          Inl error \<Rightarrow> console_warn failure None s2
        | Inr None \<Rightarrow> console_warn failure None s2
        | Inr (Some status) \<Rightarrow>
            if status \<noteq> ''granted''
            then console_warn ''Notification permissions not granted'' None s2
            else
              let s3 = log_event
                         (ScheduleNotificationAsync
                            \<lparr>request_content = \<lparr>content_title = title, content_body = body\<rparr>,
                             request_trigger = None\<rparr>) s2
              in case scheduleNotificationAsync N (events s3) of
                   Inl error \<Rightarrow> console_warn failure None s3
                 | Inr u \<Rightarrow> s3)"
  using assms
  by (simp add: sendLocalNotification_def getNotifications_native sendLocalNotification_try_def
        awaiting_permissions_def Let_def split: sum.split option.split)

lemma scheduleNotification_resolved:
  assumes "Platform_OS h \<noteq> ''web''"
    and "require h ''expo-notifications'' (events s @ [Require ''expo-notifications''])
           = Inr (Some N)"
  shows "scheduleNotification h title body seconds s =
    (Inr (),
     let s2 = awaiting_permissions h N s;
         failure = schedule_failure_warning
     in case requestPermissionsAsync N (events s2) of
          Inl error \<Rightarrow> console_warn failure None s2
        | Inr None \<Rightarrow> console_warn failure None s2
        | Inr (Some status) \<Rightarrow>
            if status \<noteq> ''granted''
            then console_warn ''Notification permissions not granted'' None s2
            else
              (case SchedulableTriggerInputTypes N of
                 None \<Rightarrow> console_warn failure None s2
               | Some types \<Rightarrow>
                  let s3 = log_event
                         (ScheduleNotificationAsync
                            \<lparr>request_content = \<lparr>content_title = title, content_body = body\<rparr>,
                             request_trigger = Some \<lparr>trigger_type = TIME_INTERVAL types,
                                    trigger_seconds = seconds,
                                    trigger_repeats = False\<rparr>\<rparr>) s2
                  in case scheduleNotificationAsync N (events s3) of
                       Inl error \<Rightarrow> console_warn failure None s3
                     | Inr u \<Rightarrow> s3))"
  using assms
  by (simp add: scheduleNotification_def getNotifications_native scheduleNotification_try_def
        awaiting_permissions_def Let_def split: sum.split option.split)

lemma sendLocalNotification_unresolved:
  assumes "Platform_OS h \<noteq> ''web''"
    and "\<forall>N. require h ''expo-notifications'' (events s @ [Require ''expo-notifications''])
           \<noteq> Inr (Some N)"
  shows "sendLocalNotification h title body s =
    (Inr (), console_warn ''Notifications not available on this platform'' None
               (log_event (Require ''expo-notifications'') s))"
  using assms
  by (simp add: sendLocalNotification_def getNotifications_native split: sum.split option.split)

lemma scheduleNotification_unresolved:
  assumes "Platform_OS h \<noteq> ''web''"
    and "\<forall>N. require h ''expo-notifications'' (events s @ [Require ''expo-notifications''])
           \<noteq> Inr (Some N)"
  shows "scheduleNotification h title body seconds s =
    (Inr (), console_warn ''Notifications not available on this platform'' None
               (log_event (Require ''expo-notifications'') s))"
  using assms
  by (simp add: scheduleNotification_def getNotifications_native split: sum.split option.split)

subsection \<open>The web path\<close>

lemma sendWebNotification_unsupported:
  "\<not> window_defined h \<or> \<not> Notification_in_window h \<Longrightarrow>
   sendWebNotification h title body s =
     (Inr (), console_warn ''Browser notifications not supported'' None s)"
  by (simp add: sendWebNotification_def)

lemma sendWebNotification_supported:
  assumes "window_defined h" "Notification_in_window h"
  shows "sendWebNotification h title body s =
    (Inr (),
     let s1 = (if Notification_permission h (events s) = ''default''
               then log_event RequestPermission s else s)
     in case (if Notification_permission h (events s) = ''default''
              then Notification_requestPermission h (events s1) else Inr ()) of
          Inl error \<Rightarrow> console_warn ''Failed to send web notification:'' (Some error) s1
        | Inr u \<Rightarrow>
            if Notification_permission h (events s1) = ''granted''
            then
              let s2 = log_event
                         (NewNotification title \<lparr>options_body = body, options_icon = None\<rparr>) s1
              in case Notification_new h (events s2) of
                   Inl error \<Rightarrow> console_warn ''Failed to send web notification:'' (Some error) s2
                 | Inr u \<Rightarrow> s2
            else console_warn ''Notification permission denied'' None s1)"
  using assms
  by (simp add: sendWebNotification_def sendWebNotification_try_def Let_def split: sum.split)

subsection \<open>Failures are handled\<close>

lemma sendWebNotification_handled:
  "case sendWebNotification h title body s of (r, s') \<Rightarrow>
     r = Inr () \<and> failures_handled h N (events s) (emitted s s')"
  by (simp add: sendWebNotification_def sendWebNotification_try_def Let_def
           split: sum.split prod.split)

lemma sendLocalNotification_try_handled:
  assumes "events s1 = log @ [e0]" "\<not> failed h (Some N) log e0" "\<not> is_registration e0"
  shows "case sendLocalNotification_try h N title body s1 of
     (r, s2) \<Rightarrow> \<exists>evs. events s2 = events s1 @ evs \<and>
       failures_handled h (Some N) log
         (e0 # evs @ (case r of Inl error \<Rightarrow> [ConsoleWarn message None] | Inr u \<Rightarrow> []))"
  using assms
  by (simp add: sendLocalNotification_try_def Let_def events_initializeNotificationHandler 
       split: sum.split option.split)

lemma scheduleNotification_try_handled:
  assumes "events s1 = log @ [e0]" "\<not> failed h (Some N) log e0" "\<not> is_registration e0"
  shows "case scheduleNotification_try h N title body seconds s1 of
     (r, s2) \<Rightarrow> \<exists>evs. events s2 = events s1 @ evs \<and>
       failures_handled h (Some N) log
         (e0 # evs @ (case r of Inl error \<Rightarrow> [ConsoleWarn message None] | Inr u \<Rightarrow> []))"
  using assms
  by (simp add: scheduleNotification_try_def Let_def events_initializeNotificationHandler 
       split: sum.split option.split)

lemma getNotifications_unresolved:
  assumes "Platform_OS h \<noteq> ''web''"
    and "\<forall>N. require h ''expo-notifications'' (events s @ [Require ''expo-notifications''])
           \<noteq> Inr (Some N)"
  shows "getNotifications h s = (None, log_event (Require ''expo-notifications'') s)"
  using assms by (auto simp: getNotifications_native split: sum.split option.split)

lemma getNotifications_resolved:
  assumes "Platform_OS h \<noteq> ''web''"
    and "require h ''expo-notifications'' (events s @ [Require ''expo-notifications''])
           = Inr (Some N)"
  shows "getNotifications h s = (Some N, log_event (Require ''expo-notifications'') s)"
  using assms by (simp add: getNotifications_native)

lemma native_call_handled:
  assumes native: "Platform_OS h \<noteq> ''web''"
    and resolved: "require h ''expo-notifications''
                     (events s @ [Require ''expo-notifications'']) = Inr (Some N)"
    and body: "\<exists>evs. events s2 = events (log_event (Require ''expo-notifications'') s) @ evs \<and>
       failures_handled h (Some N) (events s)
         (Require ''expo-notifications'' # evs @
            (case r of Inl error \<Rightarrow> [ConsoleWarn message None] | Inr u \<Rightarrow> []))"
  shows "failures_handled h (fst (getNotifications h s)) (events s)
           (emitted s (case r of Inl error \<Rightarrow> console_warn message None s2 | Inr u \<Rightarrow> s2))"
proof -
  obtain evs where evs: "events s2 = events (log_event (Require ''expo-notifications'') s) @ evs"
    and handled: "failures_handled h (Some N) (events s)
         (Require ''expo-notifications'' # evs @
            (case r of Inl error \<Rightarrow> [ConsoleWarn message None] | Inr u \<Rightarrow> []))"
    using body by blast
  show ?thesis
    using evs handled getNotifications_resolved [OF native resolved]
    by (cases r) simp_all
qed

lemma sendLocalNotification_handled:
  "case sendLocalNotification h title body s of (r, s') \<Rightarrow>
     r = Inr () \<and> failures_handled h (fst (getNotifications h s)) (events s) (emitted s s')"
proof (cases "Platform_OS h = ''web''")
  case True
  then show ?thesis
    using sendWebNotification_handled [where h = h and title = title and body = body and s = s]
    by (simp add: sendLocalNotification_def)
next
  case native: False
  show ?thesis
  proof (cases "\<exists>N. require h ''expo-notifications''
                     (events s @ [Require ''expo-notifications'']) = Inr (Some N)")
    case True
    then obtain N where resolved: "require h ''expo-notifications''
                     (events s @ [Require ''expo-notifications'']) = Inr (Some N)"
      by blast
    let ?s1 = "log_event (Require ''expo-notifications'') s"
    obtain r s2 where run: "sendLocalNotification_try h N title body ?s1 = (r, s2)"
      by (cases "sendLocalNotification_try h N title body ?s1")
    have "\<not> failed h (Some N) (events s) (Require ''expo-notifications'')"
      using resolved by simp
    then have "\<exists>evs. events s2 = events ?s1 @ evs \<and>
       failures_handled h (Some N) (events s)
         (Require ''expo-notifications'' # evs @
            (case r of Inl error \<Rightarrow> [ConsoleWarn send_failure_warning None] | Inr u \<Rightarrow> []))"
      using sendLocalNotification_try_handled [where ?s1.0 = ?s1 and log = "events s"
                and ?e0.0 = "Require ''expo-notifications''" and h = h and N = N
                and title = title and body = body and message = send_failure_warning] run
      by simp
    from native_call_handled [OF native resolved this]
    show ?thesis
      using native run getNotifications_resolved [OF native resolved]
      by (cases r) (simp_all add: sendLocalNotification_def)
  next
    case False
    with native show ?thesis
      by (simp add: sendLocalNotification_unresolved getNotifications_unresolved)
  qed
qed

lemma scheduleNotification_handled:
  "case scheduleNotification h title body seconds s of (r, s') \<Rightarrow>
     r = Inr () \<and> failures_handled h (fst (getNotifications h s)) (events s) (emitted s s')"
proof (cases "Platform_OS h = ''web''")
  case True
  then show ?thesis
    by (simp add: scheduleNotification_def)
next
  case native: False
  show ?thesis
  proof (cases "\<exists>N. require h ''expo-notifications''
                     (events s @ [Require ''expo-notifications'']) = Inr (Some N)")
    case True
    then obtain N where resolved: "require h ''expo-notifications''
                     (events s @ [Require ''expo-notifications'']) = Inr (Some N)"
      by blast
    let ?s1 = "log_event (Require ''expo-notifications'') s"
    obtain r s2 where run: "scheduleNotification_try h N title body seconds ?s1 = (r, s2)"
      by (cases "scheduleNotification_try h N title body seconds ?s1")
    have "\<not> failed h (Some N) (events s) (Require ''expo-notifications'')"
      using resolved by simp
    then have "\<exists>evs. events s2 = events ?s1 @ evs \<and>
       failures_handled h (Some N) (events s)
         (Require ''expo-notifications'' # evs @
            (case r of Inl error \<Rightarrow> [ConsoleWarn schedule_failure_warning None] | Inr u \<Rightarrow> []))"
      using scheduleNotification_try_handled [where ?s1.0 = ?s1 and log = "events s"
                and ?e0.0 = "Require ''expo-notifications''" and h = h and N = N
                and title = title and body = body and seconds = seconds
                and message = schedule_failure_warning] run
      by simp
    from native_call_handled [OF native resolved this]
    show ?thesis
      using native run getNotifications_resolved [OF native resolved]
      by (cases r) (simp_all add: scheduleNotification_def)
  next
    case False
    with native show ?thesis
      by (simp add: scheduleNotification_unresolved getNotifications_unresolved)
  qed
qed

subsection \<open>What one call does to the flag, the requires and the registrations\<close>

lemma filter_others:
  "list_all (\<lambda>e. \<not> P e) evs \<Longrightarrow> filter P evs = []"
  by (induction evs) simp_all

lemma sendWebNotification_shape:
  "case sendWebNotification h title body s of (r, s') \<Rightarrow>
     r = Inr () \<and>
     notificationHandlerInitialized s' = notificationHandlerInitialized s \<and>
     (\<exists>evs. events s' = events s @ evs \<and>
            list_all (\<lambda>e. \<not> is_require e \<and> \<not> is_registration e) evs)"
  by (simp add: sendWebNotification_def sendWebNotification_try_def Let_def
        split: sum.split prod.split)

lemma sendLocalNotification_resolved_shape:
  assumes "Platform_OS h \<noteq> ''web''"
    and "require h ''expo-notifications'' (events s @ [Require ''expo-notifications''])
           = Inr (Some N)"
  shows "case sendLocalNotification h title body s of (r, s') \<Rightarrow>
     r = Inr () \<and>
     notificationHandlerInitialized s' =
       notificationHandlerInitialized (awaiting_permissions h N s) \<and>
     (\<exists>evs. events s' = events (awaiting_permissions h N s) @ evs \<and>
            list_all (\<lambda>e. \<not> is_require e \<and> \<not> is_registration e) evs)"
  by (simp add: sendLocalNotification_resolved [OF assms] Let_def split: sum.split option.split)

lemma scheduleNotification_resolved_shape:
  assumes "Platform_OS h \<noteq> ''web''"
    and "require h ''expo-notifications'' (events s @ [Require ''expo-notifications''])
           = Inr (Some N)"
  shows "case scheduleNotification h title body seconds s of (r, s') \<Rightarrow>
     r = Inr () \<and>
     notificationHandlerInitialized s' =
       notificationHandlerInitialized (awaiting_permissions h N s) \<and>
     (\<exists>evs. events s' = events (awaiting_permissions h N s) @ evs \<and>
            list_all (\<lambda>e. \<not> is_require e \<and> \<not> is_registration e) evs)"
  by (simp add: scheduleNotification_resolved [OF assms] Let_def split: sum.split option.split)

lemma sendWebNotification_returns: "fst (sendWebNotification h title body s) = Inr ()"
  using sendWebNotification_shape [where h = h and title = title and body = body and s = s]
  by (simp split: prod.splits)

lemma perform_returns: "fst (perform h a s) = Inr ()"
proof (cases a)
  case (SendLocalNotification title body)
  then show ?thesis
    using sendLocalNotification_handled [where h = h and title = title and body = body and s = s] by (simp split: prod.splits)
next
  case (ScheduleNotification title body seconds)
  then show ?thesis
    using scheduleNotification_handled [where h = h and title = title and body = body and seconds = seconds and s = s] by (simp split: prod.splits)
next
  case (TimerFires cb)
  then show ?thesis
    by (cases cb) (simp add: sendWebNotification_returns)
qed

lemma perform_web:
  assumes "Platform_OS h = ''web'' \<or> \<not> is_call a"
  shows "notificationHandlerInitialized (snd (perform h a s)) = notificationHandlerInitialized s \<and>
         count_events is_require (snd (perform h a s)) = count_events is_require s \<and>
         count_events is_registration (snd (perform h a s)) = count_events is_registration s"
proof -
  have web: "notificationHandlerInitialized (snd (sendWebNotification h title body s)) =
               notificationHandlerInitialized s \<and>
             count_events is_require (snd (sendWebNotification h title body s)) =
               count_events is_require s \<and>
             count_events is_registration (snd (sendWebNotification h title body s)) =
               count_events is_registration s" for title body
    using sendWebNotification_shape [where h = h and title = title and body = body and s = s]
    by (auto simp: count_events_def filter_others list_all_iff split: prod.splits)
  show ?thesis
  proof (cases a)
    case (SendLocalNotification title body)
    then show ?thesis using assms web [of title body] by (simp add: sendLocalNotification_def)
  next
    case (ScheduleNotification title body seconds)
    then show ?thesis using assms
      by (simp add: scheduleNotification_def count_events_def)
  next
    case (TimerFires cb)
    then show ?thesis using web by (cases cb) simp
  qed
qed

lemma perform_unresolved:
  assumes "Platform_OS h \<noteq> ''web''" "is_call a"
    and "\<forall>N. require h ''expo-notifications'' (events s @ [Require ''expo-notifications''])
           \<noteq> Inr (Some N)"
  shows "notificationHandlerInitialized (snd (perform h a s)) = notificationHandlerInitialized s \<and>
         count_events is_require (snd (perform h a s)) = count_events is_require s + 1 \<and>
         count_events is_registration (snd (perform h a s)) = count_events is_registration s"
  using assms
  by (cases a)
     (simp_all add: sendLocalNotification_unresolved scheduleNotification_unresolved
        count_events_def)

lemma perform_resolved:
  assumes native: "Platform_OS h \<noteq> ''web''" and "is_call a"
    and resolved: "require h ''expo-notifications''
                     (events s @ [Require ''expo-notifications'']) = Inr (Some N)"
  shows "notificationHandlerInitialized (snd (perform h a s)) =
           notificationHandlerInitialized (awaiting_permissions h N s) \<and>
         count_events is_require (snd (perform h a s)) = count_events is_require s + 1 \<and>
         count_events is_registration (snd (perform h a s)) =
           count_events is_registration s + (if notificationHandlerInitialized s then 0 else 1) \<and>
         take 2 (emitted s (snd (perform h a s))) =
           Require ''expo-notifications'' #
             (if notificationHandlerInitialized s then [RequestPermissionsAsync]
              else [SetNotificationHandler foregroundBehavior])"
proof -
  have shape: "case perform h a s of (r, s') \<Rightarrow>
     r = Inr () \<and>
     notificationHandlerInitialized s' =
       notificationHandlerInitialized (awaiting_permissions h N s) \<and>
     (\<exists>evs. events s' = events (awaiting_permissions h N s) @ evs \<and>
            list_all (\<lambda>e. \<not> is_require e \<and> \<not> is_registration e) evs)"
    using \<open>is_call a\<close> sendLocalNotification_resolved_shape [OF native resolved]
      scheduleNotification_resolved_shape [OF native resolved]
    by (cases a) simp_all
  then obtain evs where flag: "notificationHandlerInitialized (snd (perform h a s)) =
       notificationHandlerInitialized (awaiting_permissions h N s)"
    and evs: "events (snd (perform h a s)) = events (awaiting_permissions h N s) @ evs"
    and others: "list_all (\<lambda>e. \<not> is_require e \<and> \<not> is_registration e) evs"
    by (auto split: prod.splits)
  have "list_all (\<lambda>e. \<not> is_require e) evs" "list_all (\<lambda>e. \<not> is_registration e) evs"
    using others by (simp_all add: list_all_iff)
  then show ?thesis
    using flag evs native
    by (simp add: count_events_def filter_others events_awaiting_permissions)
qed

subsection \<open>A whole run\<close>

lemma run_step: "run h (a # as) s = run h as (snd (perform h a s))"
  using perform_returns [of h a s] by (cases "perform h a s") simp

lemma perform_requires:
  "count_events is_require (snd (perform h a s)) =
     count_events is_require s + (if Platform_OS h = ''web'' \<or> \<not> is_call a then 0 else 1)"
proof (cases "Platform_OS h = ''web'' \<or> \<not> is_call a")
  case True
  then show ?thesis using perform_web [of h a s] by simp
next
  case False
  then show ?thesis
    using perform_unresolved [of h a s] perform_resolved [of h a s]
    by (cases "\<exists>N. require h ''expo-notifications''
                     (events s @ [Require ''expo-notifications'']) = Inr (Some N)") auto
qed

lemma run_requires:
  "count_events is_require (snd (run h as s)) =
     count_events is_require s +
     (if Platform_OS h = ''web'' then 0 else length (filter is_call as))"
proof (induction as arbitrary: s)
  case Nil
  then show ?case by simp
next
  case (Cons a as)
  show ?case
    by (simp add: run_step Cons.IH perform_requires del: run.simps(2))
qed

lemma perform_registered:
  assumes "notificationHandlerInitialized s"
  shows "notificationHandlerInitialized (snd (perform h a s)) \<and>
         count_events is_registration (snd (perform h a s)) = count_events is_registration s"
proof (cases "Platform_OS h = ''web'' \<or> \<not> is_call a")
  case True
  then show ?thesis using perform_web [of h a s] assms by simp
next
  case False
  then show ?thesis
    using perform_unresolved [of h a s] perform_resolved [of h a s] assms
    by (cases "\<exists>N. require h ''expo-notifications''
                     (events s @ [Require ''expo-notifications'']) = Inr (Some N)")
       (auto simp: flag_awaiting_permissions)
qed

lemma run_registered:
  assumes "notificationHandlerInitialized s"
  shows "notificationHandlerInitialized (snd (run h as s)) \<and>
         count_events is_registration (snd (run h as s)) = count_events is_registration s"
  using assms
proof (induction as arbitrary: s)
  case Nil
  then show ?case by simp
next
  case (Cons a as)
  from perform_registered [OF Cons.prems, of h a]
  show ?case using Cons.IH [of "snd (perform h a s)"] by (simp add: run_step del: run.simps(2))
qed

lemma perform_unregistered:
  assumes "\<not> notificationHandlerInitialized s"
    and reliable: "\<forall>name log N log'.
           require h name log = Inr (Some N) \<longrightarrow> setNotificationHandler N log' = Inr ()"
  shows "(if notificationHandlerInitialized (snd (perform h a s))
          then count_events is_registration (snd (perform h a s))
                 = count_events is_registration s + 1
          else count_events is_registration (snd (perform h a s))
                 = count_events is_registration s)"
proof (cases "Platform_OS h = ''web'' \<or> \<not> is_call a")
  case True
  then show ?thesis using perform_web [of h a s] assms by simp
next
  case native: False
  show ?thesis
  proof (cases "\<exists>N. require h ''expo-notifications''
                     (events s @ [Require ''expo-notifications'']) = Inr (Some N)")
    case True
    then obtain N where resolved: "require h ''expo-notifications''
                     (events s @ [Require ''expo-notifications'']) = Inr (Some N)"
      by blast
    then have "setNotificationHandler N
        (events s @ [Require ''expo-notifications'', SetNotificationHandler foregroundBehavior])
        = Inr ()"
      using reliable by blast
    then show ?thesis
      using native resolved perform_resolved [of h a s N] assms(1)
      by (simp add: flag_awaiting_permissions)
  next
    case False
    then show ?thesis using native perform_unresolved [of h a s] assms(1) by simp
  qed
qed

lemma run_reliable:
  assumes reliable: "\<forall>name log N log'.
           require h name log = Inr (Some N) \<longrightarrow> setNotificationHandler N log' = Inr ()"
  shows "count_events is_registration (snd (run h as s)) \<le>
           count_events is_registration s + (if notificationHandlerInitialized s then 0 else 1)"
proof (induction as arbitrary: s)
  case Nil
  then show ?case by simp
next
  case (Cons a as)
  let ?s1 = "snd (perform h a s)"
  show ?case
  proof (cases "notificationHandlerInitialized s")
    case True
    then show ?thesis using run_registered [of s h "a # as"] by (simp del: run.simps(2))
  next
    case unregistered: False
    show ?thesis
    proof (cases "notificationHandlerInitialized ?s1")
      case True
      then show ?thesis
        using perform_unregistered [OF unregistered reliable, of a]
          run_registered [of ?s1 h as] unregistered
        by (simp add: run_step del: run.simps(2))
    next
      case False
      then show ?thesis
        using perform_unregistered [OF unregistered reliable, of a]
          Cons.IH [of ?s1] unregistered
        by (simp add: run_step del: run.simps(2))
    qed
  qed
qed

lemma perform_flag:
  assumes "is_call a"
  shows "notificationHandlerInitialized (snd (perform h a s)) =
           (notificationHandlerInitialized s \<or>
            Platform_OS h \<noteq> ''web'' \<and>
            (\<exists>N. require h ''expo-notifications'' (events s @ [Require ''expo-notifications''])
                   = Inr (Some N) \<and>
                 setNotificationHandler N
                   (events s @ [Require ''expo-notifications'',
                                SetNotificationHandler foregroundBehavior]) = Inr ()))"
proof (cases "Platform_OS h = ''web''")
  case True
  then show ?thesis using perform_web [of h a s] by simp
next
  case native: False
  show ?thesis
  proof (cases "\<exists>N. require h ''expo-notifications''
                     (events s @ [Require ''expo-notifications'']) = Inr (Some N)")
    case True
    then obtain N where resolved: "require h ''expo-notifications''
                     (events s @ [Require ''expo-notifications'']) = Inr (Some N)"
      by blast
    then show ?thesis
      using native assms perform_resolved [of h a s N]
      by (simp add: flag_awaiting_permissions)
  next
    case False
    then show ?thesis using native assms perform_unresolved [of h a s] by simp
  qed
qed

lemma exported_call_cases:
  assumes "call \<in> {sendLocalNotification h title body, scheduleNotification h title body seconds}"
  obtains a where "is_call a" and "call = perform h a"
proof -
  have "call = perform h (SendLocalNotification title body) \<or>
        call = perform h (ScheduleNotification title body seconds)"
    using assms by (auto simp: fun_eq_iff)
  then show ?thesis
  proof
    assume "call = perform h (SendLocalNotification title body)"
    then show ?thesis using that [of "SendLocalNotification title body"] by simp
  next
    assume "call = perform h (ScheduleNotification title body seconds)"
    then show ?thesis using that [of "ScheduleNotification title body seconds"] by simp
  qed
qed

subsection \<open>Evaluating the model on a concrete host\<close>

lemmas evaluation =
  sendLocalNotification_def sendLocalNotification_try_def scheduleNotification_def
  scheduleNotification_try_def sendWebNotification_def sendWebNotification_try_def
  getNotifications_def initializeNotificationHandler_def log_event_def console_warn_def
  initial_state_def foregroundBehavior_def emitted_def count_events_def
  awaiting_permissions_def android_host_def bare_ios_host_def browser_host_def
  asking_browser_host_def headless_web_host_def working_module_def expo_go_module_def
  flaky_module_def refusing_module_def rejecting_module_def Let_def

section \<open>The claims\<close>

subsection \<open>No failure reaches the caller\<close>

text \<open>
  Claim C1, as amended. For every host, title, body, seconds and state, \<^verbatim>\<open>sendLocalNotification\<close>
  and \<^verbatim>\<open>scheduleNotification\<close> return normally, and so does the timer callback that
  \<^verbatim>\<open>scheduleNotification\<close> arms on the web. Every failed call of \<^verbatim>\<open>require\<close>, of
  \<^verbatim>\<open>requestPermissionsAsync\<close>, of \<^verbatim>\<open>scheduleNotificationAsync\<close>, of the browser's
  \<^verbatim>\<open>requestPermission\<close> and of the browser's constructor is followed by exactly one warning,
  after which nothing more happens. A failed \<^verbatim>\<open>setNotificationHandler\<close> is caught without a
  warning, and the function goes on to request the permission.

  The claim as stated, that every platform-call failure becomes a logged warning, fails for
  \<^verbatim>\<open>setNotificationHandler\<close>: the \<^verbatim>\<open>catch\<close> of lines 39-42 is empty by design.
\<close>

theorem failures_never_escape:
  "(case sendLocalNotification h title body s of (r, s') \<Rightarrow>
      r = Inr () \<and>
      failures_handled h (fst (getNotifications h s)) (events s) (emitted s s')) \<and>
   (case scheduleNotification h title body seconds s of (r, s') \<Rightarrow>
      r = Inr () \<and>
      failures_handled h (fst (getNotifications h s)) (events s) (emitted s s')) \<and>
   (case run_callback h cb s of (r, s') \<Rightarrow>
      r = Inr () \<and> failures_handled h None (events s) (emitted s s'))"
proof (intro conjI)
  show "case sendLocalNotification h title body s of (r, s') \<Rightarrow>
      r = Inr () \<and>
      failures_handled h (fst (getNotifications h s)) (events s) (emitted s s')"
    by (rule sendLocalNotification_handled)
  show "case scheduleNotification h title body seconds s of (r, s') \<Rightarrow>
      r = Inr () \<and>
      failures_handled h (fst (getNotifications h s)) (events s) (emitted s s')"
    by (rule scheduleNotification_handled)
  show "case run_callback h cb s of (r, s') \<Rightarrow>
      r = Inr () \<and> failures_handled h None (events s) (emitted s s')"
    using sendWebNotification_handled [where h = h and s = s and N = None]
    by (cases cb) simp
qed

theorem failures_never_escape_witness:
  "failed (android_host rejecting_module) (Some rejecting_module)
     [Require ''expo-notifications'', SetNotificationHandler foregroundBehavior]
     RequestPermissionsAsync \<and>
   sendLocalNotification (android_host rejecting_module) ''Hi'' ''there'' initial_state =
     (Inr (),
      \<lparr>notificationHandlerInitialized = True,
       events =
         [Require ''expo-notifications'',
          SetNotificationHandler foregroundBehavior,
          RequestPermissionsAsync,
          ConsoleWarn send_failure_warning None]\<rparr>) \<and>
   failures_handled (android_host rejecting_module) (Some rejecting_module) []
     [Require ''expo-notifications'',
      SetNotificationHandler foregroundBehavior,
      RequestPermissionsAsync,
      ConsoleWarn send_failure_warning None]"
  using failures_never_escape [where h = "android_host rejecting_module" and title = "''Hi''"
          and body = "''there''" and s = initial_state and seconds = 5
          and cb = "SendWebNotificationCallback ''Hi'' ''there''"]
  by (simp add: evaluation)

text \<open>
  Where the claim as stated fails: on a module whose \<^verbatim>\<open>setNotificationHandler\<close> throws, that
  call fails and the whole call logs no warning at all.
\<close>

theorem silent_registration_failure_counterexample:
  "failed (android_host expo_go_module) (Some expo_go_module)
     [Require ''expo-notifications''] (SetNotificationHandler foregroundBehavior) \<and>
   sendLocalNotification (android_host expo_go_module) ''Hi'' ''there'' initial_state =
     (Inr (),
      \<lparr>notificationHandlerInitialized = False,
       events =
         [Require ''expo-notifications'',
          SetNotificationHandler foregroundBehavior,
          RequestPermissionsAsync,
          ScheduleNotificationAsync
            \<lparr>request_content = \<lparr>content_title = ''Hi'', content_body = ''there''\<rparr>,
             request_trigger = None\<rparr>]\<rparr>) \<and>
   filter is_warning
     (events (snd (sendLocalNotification (android_host expo_go_module) ''Hi'' ''there''
                     initial_state))) = []"
  by (simp add: evaluation)

subsection \<open>The handler registration\<close>

text \<open>
  Claim C2, as amended. Once the flag is set, that is once a \<^verbatim>\<open>setNotificationHandler\<close>
  call has returned without throwing, no later call or timer firing calls
  \<^verbatim>\<open>setNotificationHandler\<close> again, and the flag stays set. So on a host whose
  \<^verbatim>\<open>setNotificationHandler\<close> does not throw, any run of calls and timer firings from the
  initial state calls it at most once.

  The claim as stated, at most one call whatever happens, fails when the call throws:
  the flag stays false and every later native call registers again (claim C9).
\<close>

theorem registration_not_repeated_after_success:
  "(notificationHandlerInitialized s \<longrightarrow>
      notificationHandlerInitialized (snd (run h as s)) \<and>
      count_events is_registration (snd (run h as s)) = count_events is_registration s) \<and>
   ((\<forall>name log N log'.
       require h name log = Inr (Some N) \<longrightarrow> setNotificationHandler N log' = Inr ()) \<longrightarrow>
      count_events is_registration (snd (run h as initial_state)) \<le> 1)"
proof (intro conjI impI)
  assume "notificationHandlerInitialized s"
  then show "notificationHandlerInitialized (snd (run h as s))"
    and "count_events is_registration (snd (run h as s)) = count_events is_registration s"
    using run_registered [of s h as] by simp_all
next
  assume "\<forall>name log N log'.
       require h name log = Inr (Some N) \<longrightarrow> setNotificationHandler N log' = Inr ()"
  from run_reliable [OF this, of as initial_state]
  show "count_events is_registration (snd (run h as initial_state)) \<le> 1"
    by (simp add: initial_state_def count_events_def)
qed

theorem registration_not_repeated_after_success_witness:
  "setNotificationHandler working_module
     [Require ''expo-notifications'', SetNotificationHandler foregroundBehavior] = Inr () \<and>
   count_events is_registration
     (snd (run (android_host working_module)
             [SendLocalNotification ''Hi'' ''there'', ScheduleNotification ''Hi'' ''there'' 5,
              SendLocalNotification ''Hi'' ''again'']
             initial_state)) \<le> 1 \<and>
   notificationHandlerInitialized
     (snd (sendLocalNotification (android_host working_module) ''Hi'' ''there'' initial_state)) \<and>
   count_events is_registration
     (snd (run (android_host working_module)
             [ScheduleNotification ''Hi'' ''there'' 5, SendLocalNotification ''Hi'' ''again'']
             (snd (sendLocalNotification (android_host working_module) ''Hi'' ''there''
                     initial_state)))) = 1"
proof -
  have reliable: "\<forall>name log N log'.
       require (android_host working_module) name log = Inr (Some N) \<longrightarrow>
       setNotificationHandler N log' = Inr ()"
    by (simp add: android_host_def working_module_def)
  have first: "sendLocalNotification (android_host working_module) ''Hi'' ''there'' initial_state =
     (Inr (),
      \<lparr>notificationHandlerInitialized = True,
       events =
         [Require ''expo-notifications'',
          SetNotificationHandler foregroundBehavior,
          RequestPermissionsAsync,
          ScheduleNotificationAsync
            \<lparr>request_content = \<lparr>content_title = ''Hi'', content_body = ''there''\<rparr>,
             request_trigger = None\<rparr>]\<rparr>)"
    by (simp add: evaluation)
  have registered: "notificationHandlerInitialized
     (snd (sendLocalNotification (android_host working_module) ''Hi'' ''there'' initial_state))"
    by (simp add: first)
  note after = registration_not_repeated_after_success
            [where h = "android_host working_module"
               and s = "snd (sendLocalNotification (android_host working_module) ''Hi'' ''there''
                               initial_state)"
               and as = "[ScheduleNotification ''Hi'' ''there'' 5,
                          SendLocalNotification ''Hi'' ''again'']",
             THEN conjunct1, THEN mp, OF registered]
  note whole = registration_not_repeated_after_success
            [where h = "android_host working_module"
               and as = "[SendLocalNotification ''Hi'' ''there'',
                          ScheduleNotification ''Hi'' ''there'' 5,
                          SendLocalNotification ''Hi'' ''again'']",
             THEN conjunct2, THEN mp, OF reliable]
  have "count_events is_registration
     (snd (sendLocalNotification (android_host working_module) ''Hi'' ''there'' initial_state))
     = 1"
    by (simp add: first count_events_def)
  with after whole registered show ?thesis
    by (simp add: working_module_def)
qed

text \<open>
  Where the claim as stated fails: on a module whose \<^verbatim>\<open>setNotificationHandler\<close> throws, two
  calls register twice.
\<close>

theorem repeated_registration_counterexample:
  "\<not> count_events is_registration
       (snd (run (android_host expo_go_module)
               [SendLocalNotification ''Hi'' ''there'', ScheduleNotification ''Hi'' ''there'' 5]
               initial_state)) \<le> 1"
  by (simp add: evaluation)

subsection \<open>The native path with the permission granted\<close>

text \<open>
  Claim C3. On a platform other than the web, when \<^verbatim>\<open>require\<close> returns the module and
  \<^verbatim>\<open>requestPermissionsAsync\<close> resolves with the status \<^verbatim>\<open>granted\<close>:
  \<^verbatim>\<open>sendLocalNotification\<close> calls \<^verbatim>\<open>scheduleNotificationAsync\<close> exactly once, with the passed
  title and body as content and the trigger \<^verbatim>\<open>null\<close>; \<^verbatim>\<open>scheduleNotification\<close>, on a module that
  has the trigger-type enumeration, calls it exactly once, with the passed title and body as
  content and a trigger of the module's time-interval type, the passed seconds and
  \<^verbatim>\<open>repeats: false\<close>.
\<close>

theorem granted_native_call_schedules_once:
  assumes "Platform_OS h \<noteq> ''web''"
    and "require h ''expo-notifications'' (events s @ [Require ''expo-notifications''])
           = Inr (Some N)"
    and "requestPermissionsAsync N (events (awaiting_permissions h N s)) = Inr (Some ''granted'')"
  shows "(case sendLocalNotification h title body s of (r, s') \<Rightarrow>
            r = Inr () \<and>
            filter is_schedule_call (emitted s s') =
              [ScheduleNotificationAsync
                 \<lparr>request_content = \<lparr>content_title = title, content_body = body\<rparr>,
                  request_trigger = None\<rparr>]) \<and>
         (\<forall>types. SchedulableTriggerInputTypes N = Some types \<longrightarrow>
            (case scheduleNotification h title body seconds s of (r, s') \<Rightarrow>
               r = Inr () \<and>
               filter is_schedule_call (emitted s s') =
                 [ScheduleNotificationAsync
                    \<lparr>request_content = \<lparr>content_title = title, content_body = body\<rparr>,
                     request_trigger =
                       Some \<lparr>trigger_type = TIME_INTERVAL types, trigger_seconds = seconds,
                             trigger_repeats = False\<rparr>\<rparr>]))"
  using assms
  by (simp add: sendLocalNotification_resolved scheduleNotification_resolved
        events_awaiting_permissions Let_def split: sum.split)

theorem granted_native_call_schedules_once_witness:
  "Platform_OS (android_host working_module) \<noteq> ''web'' \<and>
   require (android_host working_module) ''expo-notifications''
     (events initial_state @ [Require ''expo-notifications'']) = Inr (Some working_module) \<and>
   requestPermissionsAsync working_module
     (events (awaiting_permissions (android_host working_module) working_module initial_state))
     = Inr (Some ''granted'') \<and>
   SchedulableTriggerInputTypes working_module = Some \<lparr>TIME_INTERVAL = ''timeInterval''\<rparr> \<and>
   filter is_schedule_call
     (emitted initial_state
        (snd (sendLocalNotification (android_host working_module) ''Hi'' ''there'' initial_state)))
     = [ScheduleNotificationAsync
          \<lparr>request_content = \<lparr>content_title = ''Hi'', content_body = ''there''\<rparr>,
           request_trigger = None\<rparr>] \<and>
   filter is_schedule_call
     (emitted initial_state
        (snd (scheduleNotification (android_host working_module) ''Hi'' ''there'' 5 initial_state)))
     = [ScheduleNotificationAsync
          \<lparr>request_content = \<lparr>content_title = ''Hi'', content_body = ''there''\<rparr>,
           request_trigger =
             Some \<lparr>trigger_type = ''timeInterval'', trigger_seconds = 5,
                   trigger_repeats = False\<rparr>\<rparr>]"
proof -
  have os: "Platform_OS (android_host working_module) \<noteq> ''web''"
    by (simp add: android_host_def)
  have req: "require (android_host working_module) ''expo-notifications''
     (events initial_state @ [Require ''expo-notifications'']) = Inr (Some working_module)"
    by (simp add: android_host_def)
  have perm: "requestPermissionsAsync working_module
     (events (awaiting_permissions (android_host working_module) working_module initial_state))
     = Inr (Some ''granted'')"
    by (simp add: working_module_def)
  have types: "SchedulableTriggerInputTypes working_module = Some \<lparr>TIME_INTERVAL = ''timeInterval''\<rparr>"
    by (simp add: working_module_def)
  show ?thesis
    using granted_native_call_schedules_once [OF os req perm, of "''Hi''" "''there''" 5] os req perm types
    by (simp split: prod.splits)
qed

subsection \<open>The permission denied\<close>

text \<open>
  Claim C4, as amended. No notification is displayed or scheduled when the permission is
  denied. On a native platform, when \<^verbatim>\<open>requestPermissionsAsync\<close> resolves with a status other
  than \<^verbatim>\<open>granted\<close>, both functions log exactly one warning, make no schedule call and return.
  On the web with the browser permission \<^verbatim>\<open>denied\<close>, \<^verbatim>\<open>sendLocalNotification\<close> logs exactly one
  warning and returns; \<^verbatim>\<open>scheduleNotification\<close> only arms its timer and logs nothing when it is
  called, and the one warning is logged when the timer callback runs.

  The claim as stated, one warning from \<^verbatim>\<open>scheduleNotification\<close> on every platform, fails on
  the web, where lines 114-119 return before any permission is read.
\<close>

theorem denied_permission_warns_without_notification:
  "(Platform_OS h \<noteq> ''web'' \<and>
    require h ''expo-notifications'' (events s @ [Require ''expo-notifications''])
      = Inr (Some N) \<and>
    requestPermissionsAsync N (events (awaiting_permissions h N s)) = Inr (Some status) \<and>
    status \<noteq> ''granted'' \<longrightarrow>
      (case sendLocalNotification h title body s of (r, s') \<Rightarrow>
         r = Inr () \<and>
         filter is_warning (emitted s s') =
           [ConsoleWarn ''Notification permissions not granted'' None] \<and>
         filter is_schedule_call (emitted s s') = [] \<and>
         filter is_display (emitted s s') = []) \<and>
      (case scheduleNotification h title body seconds s of (r, s') \<Rightarrow>
         r = Inr () \<and>
         filter is_warning (emitted s s') =
           [ConsoleWarn ''Notification permissions not granted'' None] \<and>
         filter is_schedule_call (emitted s s') = [] \<and>
         filter is_display (emitted s s') = [])) \<and>
   (Platform_OS h = ''web'' \<and> window_defined h \<and> Notification_in_window h \<and>
    Notification_permission h (events s) = ''denied'' \<longrightarrow>
      (case sendLocalNotification h title body s of (r, s') \<Rightarrow>
         r = Inr () \<and>
         emitted s s' = [ConsoleWarn ''Notification permission denied'' None]) \<and>
      (case scheduleNotification h title body seconds s of (r, s') \<Rightarrow>
         r = Inr () \<and>
         emitted s s' =
           [SetTimeout (SendWebNotificationCallback title body) (seconds * 1000)]) \<and>
      (case run_callback h (SendWebNotificationCallback title body) s of (r, s') \<Rightarrow>
         r = Inr () \<and>
         emitted s s' = [ConsoleWarn ''Notification permission denied'' None]))"
proof (intro conjI impI; elim conjE)
  assume "Platform_OS h \<noteq> ''web''"
    and "require h ''expo-notifications'' (events s @ [Require ''expo-notifications''])
           = Inr (Some N)"
    and "requestPermissionsAsync N (events (awaiting_permissions h N s)) = Inr (Some status)"
    and "status \<noteq> ''granted''"
  then show "case sendLocalNotification h title body s of (r, s') \<Rightarrow>
         r = Inr () \<and>
         filter is_warning (emitted s s') =
           [ConsoleWarn ''Notification permissions not granted'' None] \<and>
         filter is_schedule_call (emitted s s') = [] \<and>
         filter is_display (emitted s s') = []"
    and "case scheduleNotification h title body seconds s of (r, s') \<Rightarrow>
         r = Inr () \<and>
         filter is_warning (emitted s s') =
           [ConsoleWarn ''Notification permissions not granted'' None] \<and>
         filter is_schedule_call (emitted s s') = [] \<and>
         filter is_display (emitted s s') = []"
    by (simp_all add: sendLocalNotification_resolved scheduleNotification_resolved
          events_awaiting_permissions)
next
  assume "Platform_OS h = ''web''" "window_defined h" "Notification_in_window h"
    "Notification_permission h (events s) = ''denied''"
  then show "case sendLocalNotification h title body s of (r, s') \<Rightarrow>
         r = Inr () \<and>
         emitted s s' = [ConsoleWarn ''Notification permission denied'' None]"
    and "case scheduleNotification h title body seconds s of (r, s') \<Rightarrow>
         r = Inr () \<and>
         emitted s s' =
           [SetTimeout (SendWebNotificationCallback title body) (seconds * 1000)]"
    and "case run_callback h (SendWebNotificationCallback title body) s of (r, s') \<Rightarrow>
         r = Inr () \<and>
         emitted s s' = [ConsoleWarn ''Notification permission denied'' None]"
    by (simp_all add: sendLocalNotification_def scheduleNotification_def
          sendWebNotification_supported)
qed

theorem denied_permission_warns_without_notification_witness:
  "Platform_OS (android_host refusing_module) \<noteq> ''web'' \<and>
   require (android_host refusing_module) ''expo-notifications''
     (events initial_state @ [Require ''expo-notifications'']) = Inr (Some refusing_module) \<and>
   requestPermissionsAsync refusing_module
     (events (awaiting_permissions (android_host refusing_module) refusing_module initial_state))
     = Inr (Some ''denied'') \<and>
   ''denied'' \<noteq> ''granted'' \<and>
   filter is_warning
     (emitted initial_state
        (snd (sendLocalNotification (android_host refusing_module) ''Hi'' ''there''
                initial_state)))
     = [ConsoleWarn ''Notification permissions not granted'' None] \<and>
   filter is_schedule_call
     (emitted initial_state
        (snd (scheduleNotification (android_host refusing_module) ''Hi'' ''there'' 5
                initial_state))) = [] \<and>
   Platform_OS (browser_host ''denied'') = ''web'' \<and>
   window_defined (browser_host ''denied'') \<and>
   Notification_in_window (browser_host ''denied'') \<and>
   Notification_permission (browser_host ''denied'') (events initial_state) = ''denied'' \<and>
   emitted initial_state
     (snd (sendLocalNotification (browser_host ''denied'') ''Hi'' ''there'' initial_state))
     = [ConsoleWarn ''Notification permission denied'' None] \<and>
   emitted initial_state
     (snd (scheduleNotification (browser_host ''denied'') ''Hi'' ''there'' 5 initial_state))
     = [SetTimeout (SendWebNotificationCallback ''Hi'' ''there'') 5000]"
proof -
  have native: "Platform_OS (android_host refusing_module) \<noteq> ''web'' \<and>
    require (android_host refusing_module) ''expo-notifications''
      (events initial_state @ [Require ''expo-notifications'']) = Inr (Some refusing_module) \<and>
    requestPermissionsAsync refusing_module
      (events (awaiting_permissions (android_host refusing_module) refusing_module initial_state))
      = Inr (Some ''denied'') \<and>
    ''denied'' \<noteq> ''granted''"
    by (simp add: android_host_def refusing_module_def)
  have web: "Platform_OS (browser_host ''denied'') = ''web'' \<and>
    window_defined (browser_host ''denied'') \<and>
    Notification_in_window (browser_host ''denied'') \<and>
    Notification_permission (browser_host ''denied'') (events initial_state) = ''denied''"
    by (simp add: browser_host_def)
  note on_android = denied_permission_warns_without_notification
      [where h = "android_host refusing_module" and N = refusing_module and s = initial_state
         and status = "''denied''" and title = "''Hi''" and body = "''there''" and seconds = 5,
       THEN conjunct1, THEN mp, OF native]
  note in_browser = denied_permission_warns_without_notification
      [where h = "browser_host ''denied''" and s = initial_state
         and title = "''Hi''" and body = "''there''" and seconds = 5,
       THEN conjunct2, THEN mp, OF web]
  show ?thesis
    using native web on_android in_browser by (simp split: prod.splits)
qed

text \<open>
  Where the claim as stated fails: in a browser that denies the permission,
  \<^verbatim>\<open>scheduleNotification\<close> logs no warning.
\<close>

theorem web_schedule_denied_counterexample:
  "Platform_OS (browser_host ''denied'') = ''web'' \<and>
   Notification_permission (browser_host ''denied'') (events initial_state) = ''denied'' \<and>
   length (filter is_warning
     (emitted initial_state
        (snd (scheduleNotification (browser_host ''denied'') ''Hi'' ''there'' 5 initial_state))))
     \<noteq> 1"
  by (simp add: evaluation)

subsection \<open>The module cannot be resolved\<close>

text \<open>
  Claim C5. On a platform other than the web, when \<^verbatim>\<open>require\<close> throws or returns no module,
  \<^verbatim>\<open>sendLocalNotification\<close> and \<^verbatim>\<open>scheduleNotification\<close> do nothing but the \<^verbatim>\<open>require\<close> itself
  and one warning: no handler registration, no permission request, no schedule call, and
  the flag keeps its value.
\<close>

theorem unresolved_capability_warns_only:
  assumes "Platform_OS h \<noteq> ''web''"
    and "\<forall>N. require h ''expo-notifications'' (events s @ [Require ''expo-notifications''])
           \<noteq> Inr (Some N)"
  shows "(case sendLocalNotification h title body s of (r, s') \<Rightarrow>
           r = Inr () \<and>
           emitted s s' = [Require ''expo-notifications'',
             ConsoleWarn ''Notifications not available on this platform'' None] \<and>
           filter is_api_call (emitted s s') = [] \<and>
           length (filter is_warning (emitted s s')) = 1 \<and>
           notificationHandlerInitialized s' = notificationHandlerInitialized s) \<and>
         (case scheduleNotification h title body seconds s of (r, s') \<Rightarrow>
           r = Inr () \<and>
           emitted s s' = [Require ''expo-notifications'',
             ConsoleWarn ''Notifications not available on this platform'' None] \<and>
           filter is_api_call (emitted s s') = [] \<and>
           length (filter is_warning (emitted s s')) = 1 \<and>
           notificationHandlerInitialized s' = notificationHandlerInitialized s)"
  using assms
  by (simp add: sendLocalNotification_unresolved scheduleNotification_unresolved)

theorem unresolved_capability_warns_only_witness:
  "Platform_OS bare_ios_host \<noteq> ''web'' \<and>
   require bare_ios_host ''expo-notifications''
     (events initial_state @ [Require ''expo-notifications'']) = Inl (Thrown ''Cannot find module'') \<and>
   sendLocalNotification bare_ios_host ''Hi'' ''there'' initial_state =
     (Inr (), \<lparr>notificationHandlerInitialized = False,
               events = [Require ''expo-notifications'',
                 ConsoleWarn ''Notifications not available on this platform'' None]\<rparr>) \<and>
   scheduleNotification bare_ios_host ''Hi'' ''there'' 5 initial_state =
     (Inr (), \<lparr>notificationHandlerInitialized = False,
               events = [Require ''expo-notifications'',
                 ConsoleWarn ''Notifications not available on this platform'' None]\<rparr>)"
proof -
  have os: "Platform_OS bare_ios_host \<noteq> ''web''"
    by (simp add: bare_ios_host_def android_host_def)
  have req: "require bare_ios_host ''expo-notifications''
     (events initial_state @ [Require ''expo-notifications'']) = Inl (Thrown ''Cannot find module'')"
    by (simp add: bare_ios_host_def android_host_def)
  then have unresolved: "\<forall>N. require bare_ios_host ''expo-notifications''
     (events initial_state @ [Require ''expo-notifications'']) \<noteq> Inr (Some N)"
    by simp
  have "events initial_state = []" "\<not> notificationHandlerInitialized initial_state"
    by (simp_all add: initial_state_def)
  then show ?thesis
    using unresolved_capability_warns_only [OF os unresolved, of "''Hi''" "''there''" 5] os req
    by (auto simp: emitted_def split: prod.splits)
qed

subsection \<open>The capability handle is not cached\<close>

text \<open>
  Claim C6, as amended. The module state holds the boolean flag only; the handle is not
  kept. On a platform other than the web every call of \<^verbatim>\<open>sendLocalNotification\<close> or
  \<^verbatim>\<open>scheduleNotification\<close> executes the \<^verbatim>\<open>require\<close> once more, so a run executes it as many
  times as it has calls; on the web it is never executed.

  The claim as stated, at most one \<^verbatim>\<open>require\<close> per process, fails from the second native
  call on: \<^verbatim>\<open>getNotifications\<close> (lines 8-20) stores nothing.
\<close>

theorem require_runs_on_every_native_call:
  "count_events is_require (snd (run h as s)) =
     count_events is_require s +
     (if Platform_OS h = ''web'' then 0 else length (filter is_call as))"
  by (rule run_requires)

theorem require_runs_on_every_native_call_witness:
  "count_events is_require
     (snd (run (android_host working_module)
             [SendLocalNotification ''Hi'' ''there'',
              TimerFires (SendWebNotificationCallback ''Hi'' ''there''),
              ScheduleNotification ''Hi'' ''there'' 5]
             initial_state)) = 2 \<and>
   count_events is_require
     (snd (run (browser_host ''granted'')
             [SendLocalNotification ''Hi'' ''there'',
              TimerFires (SendWebNotificationCallback ''Hi'' ''there''),
              ScheduleNotification ''Hi'' ''there'' 5]
             initial_state)) = 0"
  using require_runs_on_every_native_call
          [where h = "android_host working_module" and s = initial_state
             and as = "[SendLocalNotification ''Hi'' ''there'',
                        TimerFires (SendWebNotificationCallback ''Hi'' ''there''),
                        ScheduleNotification ''Hi'' ''there'' 5]"]
        require_runs_on_every_native_call
          [where h = "browser_host ''granted''" and s = initial_state
             and as = "[SendLocalNotification ''Hi'' ''there'',
                        TimerFires (SendWebNotificationCallback ''Hi'' ''there''),
                        ScheduleNotification ''Hi'' ''there'' 5]"]
  by (simp add: android_host_def browser_host_def initial_state_def count_events_def
        del: run.simps)

text \<open>Where the claim as stated fails: two native calls execute the \<^verbatim>\<open>require\<close> twice.\<close>

theorem repeated_require_counterexample:
  "\<not> count_events is_require
       (snd (run (android_host working_module)
               [SendLocalNotification ''Hi'' ''there'', SendLocalNotification ''Hi'' ''again'']
               initial_state)) \<le> 1"
  by (simp add: evaluation)

subsection \<open>Sending on the web\<close>

text \<open>
  Claim C7. On the web, \<^verbatim>\<open>sendLocalNotification\<close> logs one warning and does nothing else when
  \<^verbatim>\<open>window\<close> or its \<^verbatim>\<open>Notification\<close> is missing. Otherwise it requests the permission
  exactly when the permission reads \<^verbatim>\<open>default\<close>; \<open>s1\<close> is the state after that step. When the
  request, if one was made, resolves: if the permission then reads \<^verbatim>\<open>granted\<close> it constructs
  exactly one notification, with the given title, the given body and no icon (and that is
  all it does when the constructor returns); if not, it logs one warning and returns
  without displaying anything.
\<close>

theorem web_send_follows_permission:
  assumes "Platform_OS h = ''web''"
    and "s1 = (if Notification_permission h (events s) = ''default''
               then log_event RequestPermission s else s)"
    and "display = NewNotification title \<lparr>options_body = body, options_icon = None\<rparr>"
  shows "(\<not> window_defined h \<or> \<not> Notification_in_window h \<longrightarrow>
            sendLocalNotification h title body s =
              (Inr (), console_warn ''Browser notifications not supported'' None s)) \<and>
         (window_defined h \<and> Notification_in_window h \<longrightarrow>
            filter is_permission_request
              (emitted s (snd (sendLocalNotification h title body s))) =
              (if Notification_permission h (events s) = ''default''
               then [RequestPermission] else [])) \<and>
         (window_defined h \<and> Notification_in_window h \<and>
          (Notification_permission h (events s) = ''default'' \<longrightarrow>
             Notification_requestPermission h (events s1) = Inr ()) \<longrightarrow>
            (Notification_permission h (events s1) = ''granted'' \<longrightarrow>
               (case sendLocalNotification h title body s of (r, s') \<Rightarrow>
                  r = Inr () \<and>
                  filter is_display (emitted s s') = [display] \<and>
                  (Notification_new h (events s1 @ [display]) = Inr () \<longrightarrow>
                     s' = log_event display s1))) \<and>
            (Notification_permission h (events s1) \<noteq> ''granted'' \<longrightarrow>
               sendLocalNotification h title body s =
                 (Inr (), console_warn ''Notification permission denied'' None s1)))"
  using assms
  by (auto simp: sendLocalNotification_def sendWebNotification_unsupported
        sendWebNotification_supported Let_def split: sum.split)

theorem web_send_follows_permission_witness:
  "Platform_OS asking_browser_host = ''web'' \<and>
   window_defined asking_browser_host \<and> Notification_in_window asking_browser_host \<and>
   Notification_permission asking_browser_host (events initial_state) = ''default'' \<and>
   Notification_requestPermission asking_browser_host [RequestPermission] = Inr () \<and>
   Notification_permission asking_browser_host [RequestPermission] = ''granted'' \<and>
   sendLocalNotification asking_browser_host ''Hi'' ''there'' initial_state =
     (Inr (),
      \<lparr>notificationHandlerInitialized = False,
       events = [RequestPermission,
                 NewNotification ''Hi'' \<lparr>options_body = ''there'', options_icon = None\<rparr>]\<rparr>) \<and>
   sendLocalNotification (browser_host ''denied'') ''Hi'' ''there'' initial_state =
     (Inr (),
      \<lparr>notificationHandlerInitialized = False,
       events = [ConsoleWarn ''Notification permission denied'' None]\<rparr>) \<and>
   \<not> Notification_in_window headless_web_host \<and>
   sendLocalNotification headless_web_host ''Hi'' ''there'' initial_state =
     (Inr (),
      \<lparr>notificationHandlerInitialized = False,
       events = [ConsoleWarn ''Browser notifications not supported'' None]\<rparr>)"
  using web_send_follows_permission
          [where h = asking_browser_host and s = initial_state and title = "''Hi''"
             and body = "''there''", OF _ refl refl]
        web_send_follows_permission
          [where h = "browser_host ''denied''" and s = initial_state and title = "''Hi''"
             and body = "''there''", OF _ refl refl]
        web_send_follows_permission
          [where h = headless_web_host and s = initial_state and title = "''Hi''"
             and body = "''there''", OF _ refl refl]
  by (simp add: evaluation)

subsection \<open>Scheduling on the web\<close>

text \<open>
  Claim C8 is not stated here. Its two central statements are outside this embedding:
  \<^item> that the display occurs only after the delay has elapsed is a statement about real
    time, about when the host's timer runs the callback it was handed; the module only
    calls \<^verbatim>\<open>setTimeout\<close>, and the embedding has no clock;
  \<^item> that the delay is \<^verbatim>\<open>seconds * 1000\<close> for every \<^verbatim>\<open>seconds\<close> is a statement about the
    floating-point product of a JavaScript number; with \<open>seconds\<close> an integer, a delay such
    as half a second has no counterpart, and from \<open>2^53 / 1000\<close> on the rounded product of
    the code is not the exact product written here.

  What the module does by itself on the web is the following, for integer seconds: the call
  has one effect and one result, the callback and the product handed to \<^verbatim>\<open>setTimeout\<close> and
  \<^verbatim>\<open>undefined\<close> returned; the callback, run in any state, does what \<^verbatim>\<open>sendLocalNotification\<close>
  does on the web with the same title and body; the call itself displays nothing.
\<close>

lemma web_schedule_hands_over_callback:
  assumes "Platform_OS h = ''web''"
  shows "scheduleNotification h title body seconds s =
           (Inr (), log_event
                      (SetTimeout (SendWebNotificationCallback title body) (seconds * 1000)) s) \<and>
         (\<forall>s1. run_callback h (SendWebNotificationCallback title body) s1 =
                 sendLocalNotification h title body s1) \<and>
         filter is_display
           (emitted s (snd (scheduleNotification h title body seconds s))) = []"
  using assms by (simp add: scheduleNotification_def sendLocalNotification_def)

subsection \<open>The flag follows a successful registration\<close>

text \<open>
  Claim C9. After a call of \<^verbatim>\<open>sendLocalNotification\<close> or \<^verbatim>\<open>scheduleNotification\<close> the flag is set
  exactly when it was set before, or the call ran on a native platform, resolved the module
  and its \<^verbatim>\<open>setNotificationHandler\<close> call returned without throwing. When that call throws,
  the flag is still false after the call, and the next call on which the module resolves
  calls \<^verbatim>\<open>setNotificationHandler\<close> again, right after its \<^verbatim>\<open>require\<close>; the flag then follows
  the outcome of this second registration.
\<close>

theorem flag_set_only_by_successful_registration:
  assumes call1:
      "call1 \<in> {sendLocalNotification h title body, scheduleNotification h title body seconds}"
    and call2:
      "call2 \<in> {sendLocalNotification h title2 body2, scheduleNotification h title2 body2 seconds2}"
    and s1: "s1 = snd (call1 s)" and s2: "s2 = snd (call2 s1)"
    and registration: "registration = SetNotificationHandler foregroundBehavior"
  shows "notificationHandlerInitialized s1 =
           (notificationHandlerInitialized s \<or>
            Platform_OS h \<noteq> ''web'' \<and>
            (\<exists>N. require h ''expo-notifications'' (events s @ [Require ''expo-notifications''])
                   = Inr (Some N) \<and>
                 setNotificationHandler N
                   (events s @ [Require ''expo-notifications'', registration]) = Inr ())) \<and>
         (Platform_OS h \<noteq> ''web'' \<and> \<not> notificationHandlerInitialized s \<and>
          require h ''expo-notifications'' (events s @ [Require ''expo-notifications''])
            = Inr (Some N) \<and>
          setNotificationHandler N (events s @ [Require ''expo-notifications'', registration])
            = Inl error \<longrightarrow>
            take 2 (emitted s s1) = [Require ''expo-notifications'', registration] \<and>
            \<not> notificationHandlerInitialized s1 \<and>
            (\<forall>N2. require h ''expo-notifications''
                    (events s1 @ [Require ''expo-notifications'']) = Inr (Some N2) \<longrightarrow>
               take 2 (emitted s1 s2) = [Require ''expo-notifications'', registration] \<and>
               notificationHandlerInitialized s2 =
                 (setNotificationHandler N2
                    (events s1 @ [Require ''expo-notifications'', registration]) = Inr ())))"
proof -
  obtain a1 where a1: "is_call a1" "call1 = perform h a1"
    using call1 by (rule exported_call_cases)
  obtain a2 where a2: "is_call a2" "call2 = perform h a2"
    using call2 by (rule exported_call_cases)
  have first: "notificationHandlerInitialized s1 =
           (notificationHandlerInitialized s \<or>
            Platform_OS h \<noteq> ''web'' \<and>
            (\<exists>N. require h ''expo-notifications'' (events s @ [Require ''expo-notifications''])
                   = Inr (Some N) \<and>
                 setNotificationHandler N
                   (events s @ [Require ''expo-notifications'', registration]) = Inr ()))"
    using perform_flag [OF a1(1), of h s] a1(2) s1 registration by simp
  have retry: "take 2 (emitted s s1) = [Require ''expo-notifications'', registration] \<and>
            \<not> notificationHandlerInitialized s1 \<and>
            (\<forall>N2. require h ''expo-notifications''
                    (events s1 @ [Require ''expo-notifications'']) = Inr (Some N2) \<longrightarrow>
               take 2 (emitted s1 s2) = [Require ''expo-notifications'', registration] \<and>
               notificationHandlerInitialized s2 =
                 (setNotificationHandler N2
                    (events s1 @ [Require ''expo-notifications'', registration]) = Inr ()))"
    if native: "Platform_OS h \<noteq> ''web''" and fresh: "\<not> notificationHandlerInitialized s"
      and resolved: "require h ''expo-notifications''
                       (events s @ [Require ''expo-notifications'']) = Inr (Some N)"
      and throws: "setNotificationHandler N
                     (events s @ [Require ''expo-notifications'', registration]) = Inl error"
  proof -
    have attempt: "take 2 (emitted s s1) = [Require ''expo-notifications'', registration]"
      using perform_resolved [OF native a1(1) resolved] a1(2) s1 registration fresh by simp
    have still: "\<not> notificationHandlerInitialized s1"
      using first fresh resolved throws by auto
    have again: "take 2 (emitted s1 s2) = [Require ''expo-notifications'', registration] \<and>
               notificationHandlerInitialized s2 =
                 (setNotificationHandler N2
                    (events s1 @ [Require ''expo-notifications'', registration]) = Inr ())"
      if "require h ''expo-notifications''
            (events s1 @ [Require ''expo-notifications'']) = Inr (Some N2)" for N2
      using perform_resolved [OF native a2(1) that] a2(2) s2 registration still native
      by (simp add: flag_awaiting_permissions)
    show ?thesis using attempt still again by blast
  qed
  show ?thesis using first retry by blast
qed

theorem flag_set_only_by_successful_registration_witness:
  "Platform_OS (android_host flaky_module) \<noteq> ''web'' \<and>
   \<not> notificationHandlerInitialized initial_state \<and>
   require (android_host flaky_module) ''expo-notifications''
     (events initial_state @ [Require ''expo-notifications'']) = Inr (Some flaky_module) \<and>
   setNotificationHandler flaky_module
     (events initial_state @
        [Require ''expo-notifications'', SetNotificationHandler foregroundBehavior])
     = Inl (Thrown ''not ready'') \<and>
   \<not> notificationHandlerInitialized
       (snd (sendLocalNotification (android_host flaky_module) ''Hi'' ''there'' initial_state)) \<and>
   take 2
     (emitted
        (snd (sendLocalNotification (android_host flaky_module) ''Hi'' ''there'' initial_state))
        (snd (scheduleNotification (android_host flaky_module) ''Hi'' ''again'' 5
                (snd (sendLocalNotification (android_host flaky_module) ''Hi'' ''there''
                        initial_state)))))
     = [Require ''expo-notifications'', SetNotificationHandler foregroundBehavior] \<and>
   notificationHandlerInitialized
     (snd (scheduleNotification (android_host flaky_module) ''Hi'' ''again'' 5
             (snd (sendLocalNotification (android_host flaky_module) ''Hi'' ''there''
                     initial_state))))"
proof -
  let ?h = "android_host flaky_module"
  let ?s1 = "snd (sendLocalNotification ?h ''Hi'' ''there'' initial_state)"
  let ?s2 = "snd (scheduleNotification ?h ''Hi'' ''again'' 5 ?s1)"
  have hyps: "Platform_OS ?h \<noteq> ''web'' \<and>
     \<not> notificationHandlerInitialized initial_state \<and>
     require ?h ''expo-notifications''
       (events initial_state @ [Require ''expo-notifications'']) = Inr (Some flaky_module) \<and>
     setNotificationHandler flaky_module
       (events initial_state @
          [Require ''expo-notifications'', SetNotificationHandler foregroundBehavior])
       = Inl (Thrown ''not ready'')"
    by (simp add: android_host_def flaky_module_def working_module_def initial_state_def)
  have first: "events ?s1 =
         [Require ''expo-notifications'',
          SetNotificationHandler foregroundBehavior,
          RequestPermissionsAsync,
          ScheduleNotificationAsync
            \<lparr>request_content = \<lparr>content_title = ''Hi'', content_body = ''there''\<rparr>,
             request_trigger = None\<rparr>]"
    by (simp add: evaluation)
  have again: "require ?h ''expo-notifications'' (events ?s1 @ [Require ''expo-notifications''])
                 = Inr (Some flaky_module)"
    by (simp add: android_host_def)
  have succeeds: "setNotificationHandler flaky_module
       (events ?s1 @ [Require ''expo-notifications'', SetNotificationHandler foregroundBehavior])
       = Inr ()"
    unfolding first by (simp add: flaky_module_def working_module_def)
  note retry = flag_set_only_by_successful_registration
      [where h = ?h and s = initial_state and ?s1.0 = ?s1 and ?s2.0 = ?s2
         and ?call1.0 = "sendLocalNotification ?h ''Hi'' ''there''"
         and ?call2.0 = "scheduleNotification ?h ''Hi'' ''again'' 5"
         and title = "''Hi''" and body = "''there''" and seconds = 0
         and ?title2.0 = "''Hi''" and ?body2.0 = "''again''" and ?seconds2.0 = 5
         and N = flaky_module and error = "Thrown ''not ready''",
       OF _ _ refl refl refl, THEN conjunct2, THEN mp, OF _ _ hyps]
  have "take 2 (emitted initial_state ?s1) =
          [Require ''expo-notifications'', SetNotificationHandler foregroundBehavior] \<and>
        \<not> notificationHandlerInitialized ?s1 \<and>
        (\<forall>N2. require ?h ''expo-notifications''
                (events ?s1 @ [Require ''expo-notifications'']) = Inr (Some N2) \<longrightarrow>
           take 2 (emitted ?s1 ?s2) =
             [Require ''expo-notifications'', SetNotificationHandler foregroundBehavior] \<and>
           notificationHandlerInitialized ?s2 =
             (setNotificationHandler N2
                (events ?s1 @ [Require ''expo-notifications'',
                               SetNotificationHandler foregroundBehavior]) = Inr ()))"
    by (rule retry) simp_all
  then show ?thesis
    using hyps again succeeds by simp
qed

subsection \<open>Scheduling on the web looks at nothing\<close>

text \<open>
  Claim C10. On the web, \<^verbatim>\<open>scheduleNotification\<close> returns the same result and state on every
  host, whatever the host says about \<^verbatim>\<open>window\<close>, the \<^verbatim>\<open>Notification\<close> object and the
  permission: it arms the timer and does nothing else, so it logs no warning and calls no
  notification API. Support and permission are looked at by \<^verbatim>\<open>sendWebNotification\<close>, which
  is what the callback runs when the timer fires.
\<close>

theorem web_schedule_ignores_browser_state:
  assumes "Platform_OS h = ''web''" and "Platform_OS h' = ''web''"
  shows "scheduleNotification h title body seconds s =
           scheduleNotification h' title body seconds s \<and>
         (case scheduleNotification h title body seconds s of (r, s') \<Rightarrow>
            r = Inr () \<and>
            emitted s s' =
              [SetTimeout (SendWebNotificationCallback title body) (seconds * 1000)] \<and>
            filter is_warning (emitted s s') = [] \<and>
            filter is_api_call (emitted s s') = [] \<and>
            notificationHandlerInitialized s' = notificationHandlerInitialized s \<and>
            run_callback h (SendWebNotificationCallback title body) s' =
              sendWebNotification h title body s')"
  using assms by (simp add: scheduleNotification_def)

theorem web_schedule_ignores_browser_state_witness:
  "Platform_OS (browser_host ''granted'') = ''web'' \<and>
   Platform_OS headless_web_host = ''web'' \<and>
   scheduleNotification (browser_host ''granted'') ''Hi'' ''there'' 5 initial_state =
     scheduleNotification headless_web_host ''Hi'' ''there'' 5 initial_state \<and>
   emitted initial_state
     (snd (scheduleNotification headless_web_host ''Hi'' ''there'' 5 initial_state)) =
     [SetTimeout (SendWebNotificationCallback ''Hi'' ''there'') 5000]"
proof -
  have web: "Platform_OS (browser_host ''granted'') = ''web''"
    "Platform_OS headless_web_host = ''web''"
    by (simp_all add: browser_host_def headless_web_host_def)
  show ?thesis
    using web_schedule_ignores_browser_state
            [OF web, of "''Hi''" "''there''" 5 initial_state]
          web_schedule_ignores_browser_state
            [OF web(2) web(2), of "''Hi''" "''there''" 5 initial_state] web
    by (simp split: prod.splits)
qed

end
